theory Spec2Isabelle
  imports Complex_Main "HOL-Library.AList" "HOL-Library.Sublist"
begin

section \<open>Python values\<close>

text \<open>
  The functions of \<^verbatim>\<open>inventory_system.py\<close> check the dynamic type of their arguments
  (\<^verbatim>\<open>isinstance\<close>), and \<^verbatim>\<open>json.load\<close> returns a value of any JSON shape, so arguments
  and parsed documents are values of one datatype. A \<^verbatim>\<open>float\<close> is modelled by the real
  number it denotes: arithmetic is exact, and rounding, overflow, infinities and NaN are
  outside the model. A \<^verbatim>\<open>str\<close> is a list of characters with code points below 256.
\<close>

datatype pyval =
    PNone
  | PBool bool
  | PInt int
  | PFloat real
  | PStr string
  | PList "pyval list"
  | PDict "(pyval \<times> pyval) list"

text \<open>
  \<^verbatim>\<open>isinstance(v, (int, float))\<close> holds exactly when \<open>number v\<close> is not \<open>None\<close>:
  \<^verbatim>\<open>bool\<close> is a subclass of \<^verbatim>\<open>int\<close> in Python, so \<^verbatim>\<open>True\<close> and \<^verbatim>\<open>False\<close> pass the
  check. The value returned is the one \<^verbatim>\<open>float(v)\<close> has, which is also the value that
  the comparisons \<^verbatim>\<open>v < 0\<close>, \<^verbatim>\<open>v <= 0\<close> and \<^verbatim>\<open>qty < v\<close> use.
\<close>

fun number :: "pyval \<Rightarrow> real option" where
  "number (PBool b) = Some (if b then 1 else 0)"
| "number (PInt n) = Some (of_int n)"
| "number (PFloat r) = Some r"
| "number PNone = None"
| "number (PStr s) = None"
| "number (PList xs) = None"
| "number (PDict kvs) = None"


fun isinstance_dict :: "pyval \<Rightarrow> bool" where
  "isinstance_dict (PDict kvs) = True"
| "isinstance_dict v = False"

text \<open>
  \<^verbatim>\<open>str.isspace\<close> for one character, on the code points below 256: the ASCII white
  space \<^verbatim>\<open>\t \n \v \f \r\<close> and the blank, the separators 28 to 31, NEL (133) and the
  no-break space (160). \<^verbatim>\<open>str.strip()\<close> removes such characters at both ends.
\<close>

definition isspace :: "char \<Rightarrow> bool" where
  "isspace c = (of_char c \<in> {9, 10, 11, 12, 13, 28, 29, 30, 31, 32, 133, 160 :: nat})"

definition strip :: "string \<Rightarrow> string" where
  "strip s = rev (dropWhile isspace (rev (dropWhile isspace s)))"

section \<open>Exceptions\<close>

text \<open>
  Every \<^verbatim>\<open>raise\<close> of the source is a value. \<^verbatim>\<open>ValueError\<close> carries which of the
  source's messages it was raised with; the message about insufficient stock carries the
  item, the available quantity \<^verbatim>\<open>stock_data[item]\<close> and the requested \<^verbatim>\<open>qty\<close>, all
  three formatted into the text by the source.
\<close>

datatype message =
    Item_must_be_non_empty_string
  | Quantity_must_be_non_negative
  | Quantity_must_be_positive
  | Insufficient_stock string real pyval
  | File_must_contain_object
  | Must_map_strings_to_numeric
  | Threshold_must_be_non_negative

datatype error =
    ValueError message
  | KeyError pyval
  | TypeError
  | JSONDecodeError
  | OSError string

text \<open>The error taxonomy of the specification, and where each exception falls in it.\<close>

datatype kind = InvalidArgument | NotFound | InsufficientStock | InvalidFormat | IOError | Other

fun kind_of :: "error \<Rightarrow> kind" where
  "kind_of (ValueError Item_must_be_non_empty_string) = InvalidArgument"
| "kind_of (ValueError Quantity_must_be_non_negative) = InvalidArgument"
| "kind_of (ValueError Quantity_must_be_positive) = InvalidArgument"
| "kind_of (ValueError Threshold_must_be_non_negative) = InvalidArgument"
| "kind_of (ValueError (Insufficient_stock item available requested)) = InsufficientStock"
| "kind_of (ValueError File_must_contain_object) = InvalidFormat"
| "kind_of (ValueError Must_map_strings_to_numeric) = InvalidFormat"
| "kind_of JSONDecodeError = InvalidFormat"
| "kind_of (KeyError k) = NotFound"
| "kind_of (OSError p) = IOError"
| "kind_of TypeError = Other"

section \<open>The inventory\<close>

text \<open>
  \<^verbatim>\<open>stock_data\<close> is a module-level \<^verbatim>\<open>dict\<close> from \<^verbatim>\<open>str\<close> to \<^verbatim>\<open>float\<close>. A Python
  dictionary iterates in insertion order, and \<^verbatim>\<open>check_low_items\<close> returns names in that
  order, so the dictionary is an association list whose keys are distinct:
  \<^verbatim>\<open>d[k] = v\<close> is \<^const>\<open>AList.update\<close> (an existing key keeps its place, a new key goes
  to the end), \<^verbatim>\<open>del d[k]\<close> is \<^const>\<open>AList.delete\<close>, \<^verbatim>\<open>d[k]\<close> and \<^verbatim>\<open>k in d\<close> are
  \<^const>\<open>map_of\<close>, \<^verbatim>\<open>d.clear()\<close> gives the empty list. Every function takes the dictionary
  and returns it with its result, since a function can raise after it has changed it.
\<close>

type_synonym stock = "(string \<times> real) list"

definition dict_get :: "stock \<Rightarrow> string \<Rightarrow> real \<Rightarrow> real" where
  "dict_get d k dflt = (case map_of d k of None \<Rightarrow> dflt | Some v \<Rightarrow> v)"

text \<open>
  \<^verbatim>\<open>add_item(item, qty, logs=None)\<close>. The calls to \<^verbatim>\<open>logging.info\<close>, the time stamp and
  the entry appended to \<^verbatim>\<open>logs\<close> neither read nor change \<^verbatim>\<open>stock_data\<close> and do not raise;
  they are left out here and in \<open>remove_item\<close>, \<open>save_data\<close> and \<open>load_data\<close>.
\<close>

definition add_item :: "stock \<Rightarrow> pyval \<Rightarrow> pyval \<Rightarrow> (error + unit) \<times> stock" where
  "add_item stock_data item qty =
     (case item of
        PStr name \<Rightarrow>
          if strip name = [] then (Inl (ValueError Item_must_be_non_empty_string), stock_data)
          else (case number qty of
                  None \<Rightarrow> (Inl (ValueError Quantity_must_be_non_negative), stock_data)
                | Some q \<Rightarrow>
                    if q < 0 then (Inl (ValueError Quantity_must_be_non_negative), stock_data)
                    else (Inr (), AList.update name (dict_get stock_data name 0 + q) stock_data))
      | _ \<Rightarrow> (Inl (ValueError Item_must_be_non_empty_string), stock_data))"

definition remove_item :: "stock \<Rightarrow> pyval \<Rightarrow> pyval \<Rightarrow> (error + unit) \<times> stock" where
  "remove_item stock_data item qty =
     (case item of
        PStr name \<Rightarrow>
          if strip name = [] then (Inl (ValueError Item_must_be_non_empty_string), stock_data)
          else (case number qty of
                  None \<Rightarrow> (Inl (ValueError Quantity_must_be_positive), stock_data)
                | Some q \<Rightarrow>
                    if q \<le> 0 then (Inl (ValueError Quantity_must_be_positive), stock_data)
                    else (case map_of stock_data name of
                            None \<Rightarrow> (Inl (KeyError item), stock_data)
                          | Some available \<Rightarrow>
                              let new_qty = available - q in
                              if new_qty < 0
                              then (Inl (ValueError (Insufficient_stock name available qty)),
                                    stock_data)
                              else if new_qty = 0 then (Inr (), AList.delete name stock_data)
                              else (Inr (), AList.update name new_qty stock_data)))
      | _ \<Rightarrow> (Inl (ValueError Item_must_be_non_empty_string), stock_data))"

text \<open>
  \<^verbatim>\<open>get_qty(item)\<close> is \<^verbatim>\<open>float(stock_data[item])\<close>, with no check of its own: a list or
  a dictionary is unhashable (\<^verbatim>\<open>TypeError\<close>), and any other value that is not a stored
  name is a \<^verbatim>\<open>KeyError\<close> (all keys are strings). It does not change \<^verbatim>\<open>stock_data\<close>.
\<close>

definition get_qty :: "stock \<Rightarrow> pyval \<Rightarrow> error + real" where
  "get_qty stock_data item =
     (case item of
        PStr name \<Rightarrow>
          (case map_of stock_data name of None \<Rightarrow> Inl (KeyError item) | Some q \<Rightarrow> Inr q)
      | PList xs \<Rightarrow> Inl TypeError
      | PDict kvs \<Rightarrow> Inl TypeError
      | _ \<Rightarrow> Inl (KeyError item))"

text \<open>
  \<^verbatim>\<open>check_low_items(threshold=5)\<close>: the list comprehension over \<^verbatim>\<open>stock_data.items()\<close>
  is the recursion \<open>low_items\<close>.
\<close>

fun low_items :: "stock \<Rightarrow> real \<Rightarrow> string list" where
  "low_items [] t = []"
| "low_items ((item, qty) # rest) t =
     (if qty < t then item # low_items rest t else low_items rest t)"

definition check_low_items :: "stock \<Rightarrow> pyval \<Rightarrow> error + string list" where
  "check_low_items stock_data threshold =
     (case number threshold of
        None \<Rightarrow> Inl (ValueError Threshold_must_be_non_negative)
      | Some t \<Rightarrow>
          if t < 0 then Inl (ValueError Threshold_must_be_non_negative)
          else Inr (low_items stock_data t))"

definition default_threshold :: pyval where
  "default_threshold = PInt 5"

section \<open>Files\<close>

text \<open>
  A file holds text. What \<open>load_data\<close> sees of it is what \<^verbatim>\<open>json.load\<close> makes of it: a
  \<^verbatim>\<open>JSONDecodeError\<close>, or the parsed value, so a file is modelled by that. \<^verbatim>\<open>json.dump\<close>
  writes the text of a JSON object whose members are the entries of the dictionary in
  order, and \<^verbatim>\<open>json.load\<close> reads that text back as a \<^verbatim>\<open>dict\<close> of \<^verbatim>\<open>str\<close> to \<^verbatim>\<open>float\<close>
  (a float is written with a decimal point or an exponent); both belong to Python's
  library, and \<open>dump\<close> is the value the written text parses to. Opening a file fails with
  an \<^verbatim>\<open>OSError\<close> when it cannot be read (no file at the path) or written.
\<close>

datatype filedata = Unparsable | Json pyval

record filesystem =
  contents :: "string \<Rightarrow> filedata option"
  writable :: "string \<Rightarrow> bool"

definition dump :: "stock \<Rightarrow> pyval" where
  "dump stock_data = PDict (map (\<lambda>(k, v). (PStr k, PFloat v)) stock_data)"

definition save_data :: "filesystem \<Rightarrow> stock \<Rightarrow> string \<Rightarrow> (error + unit) \<times> filesystem" where
  "save_data fs stock_data file_path =
     (if writable fs file_path
      then (Inr (), fs\<lparr>contents := (contents fs)(file_path \<mapsto> Json (dump stock_data))\<rparr>)
      else (Inl (OSError file_path), fs))"

text \<open>
  The loop of \<open>load_data\<close> over \<^verbatim>\<open>data.items()\<close>. It runs after \<^verbatim>\<open>stock_data.clear()\<close>
  and writes each entry into \<^verbatim>\<open>stock_data\<close> as it goes; the \<^verbatim>\<open>raise\<close> inside the loop
  leaves the dictionary as it is at that point.
\<close>

fun load_items :: "(pyval \<times> pyval) list \<Rightarrow> stock \<Rightarrow> (error + unit) \<times> stock" where
  "load_items [] stock_data = (Inr (), stock_data)"
| "load_items ((key, val) # rest) stock_data =
     (case key of
        PStr k \<Rightarrow>
          (case number val of
             None \<Rightarrow> (Inl (ValueError Must_map_strings_to_numeric), stock_data)
           | Some v \<Rightarrow> load_items rest (AList.update k v stock_data))
      | _ \<Rightarrow> (Inl (ValueError Must_map_strings_to_numeric), stock_data))"

text \<open>The part of \<open>load_data\<close> after \<^verbatim>\<open>json.load\<close> has returned \<open>data\<close>.\<close>

definition load_parsed :: "pyval \<Rightarrow> stock \<Rightarrow> (error + unit) \<times> stock" where
  "load_parsed data stock_data =
     (case data of
        PDict items \<Rightarrow> load_items items []
      | _ \<Rightarrow> (Inl (ValueError File_must_contain_object), stock_data))"

definition load_data :: "filesystem \<Rightarrow> stock \<Rightarrow> string \<Rightarrow> (error + unit) \<times> stock" where
  "load_data fs stock_data file_path =
     (case contents fs file_path of
        None \<Rightarrow> (Inl (OSError file_path), stock_data)
      | Some Unparsable \<Rightarrow> (Inl JSONDecodeError, stock_data)
      | Some (Json data) \<Rightarrow> load_parsed data stock_data)"

definition default_path :: string where
  "default_path = ''inventory.json''"

section \<open>Sequences of operations\<close>

text \<open>
  The states the inventory can reach: \<open>run\<close> applies a sequence of calls to a dictionary
  and returns the dictionary after the last one, or \<open>None\<close> as soon as a call raises. A
  load names the file system it reads, since files change between calls.
\<close>

datatype call = Add pyval pyval | Remove pyval pyval | Load filesystem string

fun step :: "stock \<Rightarrow> call \<Rightarrow> (error + unit) \<times> stock" where
  "step stock_data (Add item qty) = add_item stock_data item qty"
| "step stock_data (Remove item qty) = remove_item stock_data item qty"
| "step stock_data (Load fs file_path) = load_data fs stock_data file_path"

fun run :: "stock \<Rightarrow> call list \<Rightarrow> stock option" where
  "run stock_data [] = Some stock_data"
| "run stock_data (c # cs) =
     (case step stock_data c of
        (Inl e, s) \<Rightarrow> None
      | (Inr u, s) \<Rightarrow> run s cs)"


section \<open>Facts about the dictionary operations\<close>

lemma strip_empty_iff: "strip s = [] \<longleftrightarrow> (\<forall>c \<in> set s. isspace c)"
proof -
  have "dropWhile isspace (rev (dropWhile isspace s)) = [] \<longleftrightarrow> dropWhile isspace s = []"
  proof
    assume a: "dropWhile isspace (rev (dropWhile isspace s)) = []"
    show "dropWhile isspace s = []"
    proof (rule ccontr)
      assume n: "dropWhile isspace s \<noteq> []"
      then have "\<not> isspace (hd (dropWhile isspace s))" by (rule hd_dropWhile)
      moreover have "hd (dropWhile isspace s) \<in> set (rev (dropWhile isspace s))"
        using n by simp
      ultimately show False using a by auto
    qed
  qed (auto dest: set_dropWhileD)
  then show ?thesis by (simp add: strip_def)
qed



lemma update_new_key: "k \<notin> fst ` set al \<Longrightarrow> AList.update k v al = al @ [(k, v)]"
  by (induction al) auto



lemma low_items_filter: "low_items s t = map fst (filter (\<lambda>(item, qty). qty < t) s)"
  by (induction s t rule: low_items.induct) auto

text \<open>What a call that returns has checked, and what it has written.\<close>

lemma add_item_Inr:
  assumes "add_item s item qty = (Inr u, s')"
  obtains name q where "item = PStr name" and "strip name \<noteq> []" and "number qty = Some q"
    and "0 \<le> q" and "s' = AList.update name (dict_get s name 0 + q) s"
proof (cases item)
  case (PStr name)
  show ?thesis
  proof (cases "number qty")
    case None
    then show ?thesis using assms PStr by (simp add: add_item_def split: if_splits)
  next
    case (Some q)
    then show ?thesis using assms PStr that [of name q]
      by (simp add: add_item_def split: if_splits)
  qed
qed (insert assms, simp_all add: add_item_def)

lemma remove_item_Inr:
  assumes "remove_item s item qty = (Inr u, s')"
  obtains name q available where "item = PStr name" and "strip name \<noteq> []"
    and "number qty = Some q" and "0 < q" and "map_of s name = Some available"
    and "q \<le> available"
    and "s' = (if available - q = 0 then AList.delete name s
               else AList.update name (available - q) s)"
proof (cases item)
  case (PStr name)
  show ?thesis
  proof (cases "number qty")
    case None
    then show ?thesis using assms PStr by (simp add: remove_item_def split: if_splits)
  next
    case q: (Some q)
    show ?thesis
    proof (cases "map_of s name")
      case None
      then show ?thesis using assms PStr q by (simp add: remove_item_def split: if_splits)
    next
      case (Some available)
      then show ?thesis using assms PStr q that [of name q available]
        by (simp add: remove_item_def Let_def split: if_splits)
    qed
  qed
qed (insert assms, simp_all add: remove_item_def)

lemma load_data_Inr:
  assumes "load_data fs s file_path = (Inr u, s')"
  obtains items where "contents fs file_path = Some (Json (PDict items))"
    and "load_items items [] = (Inr u, s')"
proof (cases "contents fs file_path")
  case None
  then show ?thesis using assms by (simp add: load_data_def)
next
  case (Some f)
  show ?thesis
  proof (cases f)
    case Unparsable
    then show ?thesis using assms Some by (simp add: load_data_def)
  next
    case (Json data)
    then show ?thesis using assms Some that
      by (cases data) (simp_all add: load_data_def load_parsed_def)
  qed
qed



lemma load_items_dump:
  "distinct (map fst kvs) \<Longrightarrow> fst ` set kvs \<inter> fst ` set acc = {} \<Longrightarrow>
   load_items (map (\<lambda>(k, v). (PStr k, PFloat v)) kvs) acc = (Inr (), acc @ kvs)"
proof (induction kvs arbitrary: acc)
  case Nil
  then show ?case by simp
next
  case (Cons kv kvs)
  obtain k v where kv: "kv = (k, v)" by (cases kv)
  have new: "k \<notin> fst ` set acc" using Cons.prems(2) kv by auto
  have "distinct (map fst kvs)" using Cons.prems(1) by simp
  moreover have "fst ` set kvs \<inter> fst ` set (acc @ [(k, v)]) = {}"
    using Cons.prems kv by auto
  ultimately have "load_items (map (\<lambda>(k, v). (PStr k, PFloat v)) kvs) (acc @ [(k, v)])
      = (Inr (), (acc @ [(k, v)]) @ kvs)"
    by (rule Cons.IH)
  then show ?case using kv new by (simp add: update_new_key)
qed

text \<open>
  The keys of the association list stay distinct under every call, so the list is a
  dictionary in every state the program reaches.
\<close>

lemma load_items_distinct:
  "distinct (map fst acc) \<Longrightarrow> distinct (map fst (snd (load_items items acc)))"
proof (induction items acc rule: load_items.induct)
  case (1 stock_data)
  then show ?case by simp
next
  case (2 key val rest stock_data)
  show ?case
  proof (cases "\<exists>k v. key = PStr k \<and> number val = Some v")
    case True
    then obtain k v where kv: "key = PStr k" "number val = Some v" by blast
    have "distinct (map fst (AList.update k v stock_data))"
      using "2.prems" by (rule AList.distinct_update)
    then show ?thesis using "2.IH" [OF kv] kv by simp
  next
    case False
    then have "snd (load_items ((key, val) # rest) stock_data) = stock_data"
      by (cases key; cases "number val") simp_all
    then show ?thesis using "2.prems" by simp
  qed
qed

lemma step_distinct:
  assumes "distinct (map fst s)" and "step s c = (Inr u, s')"
  shows "distinct (map fst s')"
proof (cases c)
  case (Add item qty)
  then have "add_item s item qty = (Inr u, s')" using assms(2) by simp
  then obtain name v where "s' = AList.update name v s" by (rule add_item_Inr)
  then show ?thesis using assms(1) by (simp add: AList.distinct_update)
next
  case (Remove item qty)
  then have "remove_item s item qty = (Inr u, s')" using assms(2) by simp
  then obtain name q available where
    "s' = (if available - q = 0 then AList.delete name s
           else AList.update name (available - q) s)"
    by (rule remove_item_Inr)
  then show ?thesis using assms(1) by (simp add: AList.distinct_update AList.distinct_delete)
next
  case (Load fs file_path)
  then have "load_data fs s file_path = (Inr u, s')" using assms(2) by simp
  then obtain items where "load_items items [] = (Inr u, s')" by (rule load_data_Inr)
  then show ?thesis using load_items_distinct [of "[]" items] by simp
qed

lemma run_distinct:
  "run s cs = Some s' \<Longrightarrow> distinct (map fst s) \<Longrightarrow> distinct (map fst s')"
proof (induction cs arbitrary: s)
  case Nil
  then show ?case by simp
next
  case (Cons c cs)
  obtain r s1 where st: "step s c = (r, s1)" by (cases "step s c")
  with Cons.prems(1) obtain u where r: "r = Inr u" and rest: "run s1 cs = Some s'"
    by (cases r) auto
  have "distinct (map fst s1)" using step_distinct [of s c u s1] Cons.prems(2) st r by simp
  then show ?case using Cons.IH [OF rest] by simp
qed







text \<open>
  \<^verbatim>\<open>True\<close> and \<^verbatim>\<open>False\<close> are instances of \<^verbatim>\<open>int\<close>: a JSON \<^verbatim>\<open>true\<close> in a file is read as
  the quantity 1.
\<close>

lemma load_parsed_bool:
  "load_parsed (PDict [(PStr ''apple'', PBool True)]) s = (Inr (), [(''apple'', 1)])"
  by (simp add: load_parsed_def)

text \<open>
  The run of \<^verbatim>\<open>main()\<close>: two additions, a removal, the query, the report of low items
  with the default threshold, and a save and a load at the default path.
\<close>

lemma main_scenario:
  "run [] [Add (PStr ''apple'') (PInt 10), Add (PStr ''banana'') (PInt 3),
           Remove (PStr ''apple'') (PInt 2)] = Some [(''apple'', 8), (''banana'', 3)] \<and>
   get_qty [(''apple'', 8), (''banana'', 3)] (PStr ''apple'') = Inr 8 \<and>
   check_low_items [(''apple'', 8), (''banana'', 3)] default_threshold = Inr [''banana''] \<and>
   load_data (snd (save_data \<lparr>contents = Map.empty, writable = (\<lambda>p. True)\<rparr>
                     [(''apple'', 8), (''banana'', 3)] default_path))
     [(''apple'', 8), (''banana'', 3)] default_path = (Inr (), [(''apple'', 8), (''banana'', 3)])"
  by (simp add: add_item_def remove_item_def dict_get_def strip_def isspace_def get_qty_def
      check_low_items_def default_threshold_def save_data_def load_data_def load_parsed_def
      dump_def default_path_def)

section \<open>The claims\<close>

subsection \<open>C1: the quantities of reachable states\<close>




subsection \<open>C2: a load that fails on an entry\<close>

text \<open>
  C2 says that a load which fails on an entry leaves the dictionary as it was. The source
  clears \<^verbatim>\<open>stock_data\<close> before it checks the entries: with \<^verbatim>\<open>{"apple": 8.0}\<close> in memory
  and \<^verbatim>\<open>{"a": 1, "b": "x"}\<close> in the file, the call raises the \<^verbatim>\<open>ValueError\<close> on
  \<^verbatim>\<open>"b"\<close> and the dictionary is \<^verbatim>\<open>{"a": 1.0}\<close>: the prior entry is gone and the entry
  before the bad one is in.
\<close>

theorem load_data_failure_mutates:
  "load_data \<lparr>contents = [''inventory.json'' \<mapsto>
                Json (PDict [(PStr ''a'', PInt 1), (PStr ''b'', PStr ''x'')])],
              writable = (\<lambda>p. True)\<rparr> [(''apple'', 8)] ''inventory.json''
     = (Inl (ValueError Must_map_strings_to_numeric), [(''a'', 1)])"
  by (simp add: load_data_def load_parsed_def)

subsection \<open>C3: add, then query\<close>



subsection \<open>C4: remove within stock, then query\<close>




subsection \<open>C5: remove beyond stock\<close>




subsection \<open>C6: save, then load\<close>

text \<open>
  C6: for every dictionary, when \<open>save_data\<close> has written it to a path, \<open>load_data\<close> of
  that path into an empty dictionary returns, and the dictionary is then the one saved:
  the same keys in the same order, each with the same quantity.
\<close>

theorem save_then_load_roundtrip:
  assumes "distinct (map fst stock_data)"
    and "fst (save_data fs stock_data file_path) = Inr ()"
  shows "load_data (snd (save_data fs stock_data file_path)) [] file_path = (Inr (), stock_data)"
proof -
  have w: "writable fs file_path"
    using assms(2) by (simp add: save_data_def split: if_splits)
  have "load_items (map (\<lambda>(k, v). (PStr k, PFloat v)) stock_data) [] = (Inr (), [] @ stock_data)"
    using assms(1) by (intro load_items_dump) simp_all
  then show ?thesis
    using w by (simp add: save_data_def load_data_def load_parsed_def dump_def)
qed

theorem save_then_load_roundtrip_witness:
  "distinct (map fst [(''apple'', 8 :: real), (''banana'', 3)]) \<and>
   fst (save_data \<lparr>contents = Map.empty, writable = (\<lambda>p. True)\<rparr>
          [(''apple'', 8), (''banana'', 3)] ''inventory.json'') = Inr () \<and>
   load_data (snd (save_data \<lparr>contents = Map.empty, writable = (\<lambda>p. True)\<rparr>
                    [(''apple'', 8), (''banana'', 3)] ''inventory.json'')) [] ''inventory.json''
     = (Inr (), [(''apple'', 8), (''banana'', 3)])"
  using save_then_load_roundtrip [of "[(''apple'', 8), (''banana'', 3)]"
      "\<lparr>contents = Map.empty, writable = (\<lambda>p. True)\<rparr>" "''inventory.json''"]
  by (simp add: save_data_def)

subsection \<open>C7: when a load fails on the format\<close>



subsection \<open>C8: a file that is not an object\<close>

text \<open>
  C8: for every dictionary and every file that parses as a JSON value which is not an
  object, \<open>load_data\<close> fails with an error of kind \<open>InvalidFormat\<close> and the dictionary is
  as it was before the call.
\<close>

theorem load_data_not_object:
  assumes "contents fs file_path = Some (Json data)" and "\<not> isinstance_dict data"
  shows "load_data fs stock_data file_path
           = (Inl (ValueError File_must_contain_object), stock_data) \<and>
         kind_of (ValueError File_must_contain_object) = InvalidFormat"
  using assms by (cases data) (simp_all add: load_data_def load_parsed_def)

theorem load_data_not_object_witness:
  "contents \<lparr>contents = [''inventory.json'' \<mapsto> Json (PList [PInt 1, PInt 2])],
             writable = (\<lambda>p. True)\<rparr> ''inventory.json''
     = Some (Json (PList [PInt 1, PInt 2])) \<and>
   \<not> isinstance_dict (PList [PInt 1, PInt 2]) \<and>
   load_data \<lparr>contents = [''inventory.json'' \<mapsto> Json (PList [PInt 1, PInt 2])],
              writable = (\<lambda>p. True)\<rparr> [(''apple'', 8)] ''inventory.json''
     = (Inl (ValueError File_must_contain_object), [(''apple'', 8)]) \<and>
   \<not> isinstance_dict (PStr ''apple'') \<and>
   load_data \<lparr>contents = [''inventory.json'' \<mapsto> Json (PStr ''apple'')],
              writable = (\<lambda>p. True)\<rparr> [(''apple'', 8)] ''inventory.json''
     = (Inl (ValueError File_must_contain_object), [(''apple'', 8)])"
  using load_data_not_object [of
      "\<lparr>contents = [''inventory.json'' \<mapsto> Json (PList [PInt 1, PInt 2])],
        writable = (\<lambda>p. True)\<rparr>" "''inventory.json''" "PList [PInt 1, PInt 2]" "[(''apple'', 8)]"]
    load_data_not_object [of
      "\<lparr>contents = [''inventory.json'' \<mapsto> Json (PStr ''apple'')],
        writable = (\<lambda>p. True)\<rparr>" "''inventory.json''" "PStr ''apple''" "[(''apple'', 8)]"]
  by simp

subsection \<open>C9: the items low in stock\<close>

text \<open>
  C9: for every dictionary and every \<^verbatim>\<open>int\<close> or \<^verbatim>\<open>float\<close> threshold \<open>t \<ge> 0\<close>,
  \<open>check_low_items\<close> returns the names whose stored quantity is less than \<open>t\<close>, and no
  other, in the order in which the dictionary iterates; the list is empty when no
  quantity is less than \<open>t\<close>. For a threshold that is negative, or no \<^verbatim>\<open>int\<close> or
  \<^verbatim>\<open>float\<close>, it fails with an error of kind \<open>InvalidArgument\<close>.
\<close>

theorem check_low_items_correct:
  "(number threshold = Some t \<and> 0 \<le> t \<longrightarrow>
      check_low_items stock_data threshold
        = Inr (map fst (filter (\<lambda>(item, qty). qty < t) stock_data)) \<and>
      (\<forall>names. check_low_items stock_data threshold = Inr names \<longrightarrow>
         set names = {item. \<exists>qty. (item, qty) \<in> set stock_data \<and> qty < t} \<and>
         subseq names (map fst stock_data) \<and>
         ((\<forall>(item, qty) \<in> set stock_data. \<not> qty < t) \<longrightarrow> names = []))) \<and>
   (number threshold = None \<or> (number threshold = Some t \<and> t < 0) \<longrightarrow>
      (\<exists>e. check_low_items stock_data threshold = Inl e \<and> kind_of e = InvalidArgument))"
proof -
  have "subseq (map fst (filter (\<lambda>(item, qty). qty < t) stock_data)) (map fst stock_data)"
    by (intro subseq_map subseq_filter_left)
  moreover have "set (map fst (filter (\<lambda>(item, qty). qty < t) stock_data))
      = {item. \<exists>qty. (item, qty) \<in> set stock_data \<and> qty < t}"
    by force
  moreover have "(\<forall>(item, qty) \<in> set stock_data. \<not> qty < t) \<longrightarrow>
      map fst (filter (\<lambda>(item, qty). qty < t) stock_data) = []"
    by (auto simp: filter_empty_conv)
  ultimately show ?thesis
    by (auto simp: check_low_items_def low_items_filter)
qed

theorem check_low_items_correct_witness:
  "number (PInt 5) = Some 5 \<and> (0 :: real) \<le> 5 \<and>
   check_low_items [(''apple'', 8), (''banana'', 3), (''cherry'', 1)] (PInt 5)
     = Inr [''banana'', ''cherry''] \<and>
   check_low_items [(''apple'', 8)] (PInt 5) = Inr [] \<and>
   number (PFloat (- 1)) = Some (- 1) \<and> (- 1 :: real) < 0 \<and>
   check_low_items [(''apple'', 8), (''banana'', 3), (''cherry'', 1)] (PFloat (- 1))
     = Inl (ValueError Threshold_must_be_non_negative) \<and>
   number (PStr ''5'') = None \<and>
   check_low_items [(''apple'', 8), (''banana'', 3), (''cherry'', 1)] (PStr ''5'')
     = Inl (ValueError Threshold_must_be_non_negative) \<and>
   kind_of (ValueError Threshold_must_be_non_negative) = InvalidArgument"
  using check_low_items_correct [of "PInt 5" 5 "[(''apple'', 8), (''banana'', 3), (''cherry'', 1)]"]
    check_low_items_correct [of "PInt 5" 5 "[(''apple'', 8)]"]
    check_low_items_correct [of "PFloat (- 1)" "- 1"
      "[(''apple'', 8), (''banana'', 3), (''cherry'', 1)]"]
    check_low_items_correct [of "PStr ''5''" 0 "[(''apple'', 8), (''banana'', 3), (''cherry'', 1)]"]
  by (simp add: check_low_items_def)

subsection \<open>C10: names are stored as given\<close>

text \<open>
  C10: \<open>add_item\<close> stores the quantity under the name it was given, not under the
  stripped name, so two names that differ, in particular two that differ only in white
  space at the ends, are two entries. For such names \<open>a\<close> and \<open>b\<close>: an \<open>add_item\<close> for \<open>a\<close>
  does not change what \<open>get_qty\<close> returns for \<open>b\<close>, neither does a \<open>remove_item\<close> for \<open>a\<close>;
  and when \<open>a\<close> is not a key, whether \<open>b\<close> is one or not, \<open>get_qty\<close> for \<open>a\<close> raises
  \<^verbatim>\<open>KeyError\<close> and \<open>remove_item\<close> for \<open>a\<close> raises and leaves the dictionary as it was, with
  \<^verbatim>\<open>KeyError\<close> when the name and the quantity pass its checks.
\<close>

theorem item_names_stored_verbatim:
  assumes "a \<noteq> b"
  shows "(fst (add_item stock_data (PStr a) qty) = Inr () \<longrightarrow>
            a \<in> fst ` set (snd (add_item stock_data (PStr a) qty))) \<and>
         get_qty (snd (add_item stock_data (PStr a) qty)) (PStr b) = get_qty stock_data (PStr b) \<and>
         get_qty (snd (remove_item stock_data (PStr a) qty)) (PStr b)
           = get_qty stock_data (PStr b) \<and>
         (a \<notin> fst ` set stock_data \<longrightarrow>
            get_qty stock_data (PStr a) = Inl (KeyError (PStr a)) \<and>
            (\<exists>e. remove_item stock_data (PStr a) qty = (Inl e, stock_data)) \<and>
            (strip a \<noteq> [] \<and> (\<exists>n. number qty = Some n \<and> 0 < n) \<longrightarrow>
               remove_item stock_data (PStr a) qty = (Inl (KeyError (PStr a)), stock_data)))"
proof -
  have absent: "map_of stock_data a = None" if "a \<notin> fst ` set stock_data"
    using that by (simp add: map_of_eq_None_iff)
  have 1: "fst (add_item stock_data (PStr a) qty) = Inr () \<longrightarrow>
      a \<in> fst ` set (snd (add_item stock_data (PStr a) qty))"
    by (cases "number qty") (auto simp: add_item_def AList.dom_update)
  have 2: "get_qty (snd (add_item stock_data (PStr a) qty)) (PStr b) = get_qty stock_data (PStr b)"
    using assms by (cases "number qty") (auto simp: add_item_def get_qty_def AList.update_conv')
  have 3: "get_qty (snd (remove_item stock_data (PStr a) qty)) (PStr b)
      = get_qty stock_data (PStr b)"
    using assms
    by (cases "number qty"; cases "map_of stock_data a")
      (auto simp: remove_item_def get_qty_def Let_def AList.update_conv' AList.delete_conv')
  have 4: "get_qty stock_data (PStr a) = Inl (KeyError (PStr a))" if "a \<notin> fst ` set stock_data"
    using absent [OF that] by (simp add: get_qty_def)
  have 5: "\<exists>e. remove_item stock_data (PStr a) qty = (Inl e, stock_data)"
    if "a \<notin> fst ` set stock_data"
    using absent [OF that] by (cases "number qty") (auto simp: remove_item_def)
  have 6: "remove_item stock_data (PStr a) qty = (Inl (KeyError (PStr a)), stock_data)"
    if "a \<notin> fst ` set stock_data" "strip a \<noteq> []" "number qty = Some n" "0 < n" for n
    using absent [OF that(1)] that(2-4) by (simp add: remove_item_def)
  show ?thesis using 1 2 3 4 5 6 by blast
qed

theorem item_names_stored_verbatim_witness:
  "'' apple'' \<noteq> ''apple'' \<and> strip '' apple'' = strip ''apple'' \<and>
   add_item [(''apple'', 8)] (PStr '' apple'') (PInt 3)
     = (Inr (), [(''apple'', 8), ('' apple'', 3)]) \<and>
   get_qty [(''apple'', 8), ('' apple'', 3)] (PStr ''apple'') = Inr 8 \<and>
   get_qty [(''apple'', 8)] (PStr ''apple'') = Inr 8 \<and>
   get_qty [(''apple'', 8)] (PStr '' apple'') = Inl (KeyError (PStr '' apple'')) \<and>
   remove_item [(''apple'', 8)] (PStr '' apple'') (PInt 3)
     = (Inl (KeyError (PStr '' apple'')), [(''apple'', 8)])"
  using item_names_stored_verbatim [of "'' apple''" "''apple''" "[(''apple'', 8)]" "PInt 3"]
  by (simp add: strip_def isspace_def add_item_def remove_item_def get_qty_def dict_get_def)

end
